theory Spec2Isabelle
  imports Main "HOL-Library.Multiset"
begin

section \<open>Data model (shared/schema.ts)\<close>

text \<open>
  Each table of \<^verbatim>\<open>shared/schema.ts\<close> is a record with one field per column.
  Identifiers are the auto-increment integer keys (natural numbers), timestamps are
  milliseconds as read by \<^verbatim>\<open>Date.getTime()\<close>. A nullable column is an
  \<open>option\<close>. The role stays the string the code compares against.
\<close>

record user =
  user_id :: nat
  user_username :: string
  user_password :: string
  user_email :: string
  user_fullName :: string
  user_role :: string
  user_tenantId :: "nat option"
  user_createdAt :: int

record tenant =
  tenant_id :: nat
  tenant_name :: string
  tenant_description :: "string option"
  tenant_industry :: "string option"
  tenant_createdAt :: int

record question =
  question_id :: nat
  question_title :: string
  question_description :: "string option"
  question_domainId :: nat
  question_required :: "bool option"
  question_tags :: "string option"
  question_createdAt :: int
  question_updatedAt :: int

record tenantQuestion =
  tq_id :: nat
  tq_tenantId :: nat
  tq_questionId :: nat
  tq_status :: "string option"
  tq_lastUpdated :: int

record response =
  response_id :: nat
  response_tenantQuestionId :: nat
  response_userId :: nat
  response_content :: string
  response_createdAt :: int

record attachment =
  attachment_id :: nat
  attachment_responseId :: nat
  attachment_filename :: string
  attachment_originalName :: string
  attachment_mimeType :: string
  attachment_size :: nat
  attachment_createdAt :: int

text \<open>
  A field of a JSON request body as a zod schema sees it: missing, \<^verbatim>\<open>null\<close>, a
  value of the column's type, or a value of another type.
\<close>

datatype 'a field = Absent | Null | Given 'a | IllTyped


record insertResponse =
  ir_tenantQuestionId :: nat
  ir_userId :: nat
  ir_content :: string

record insertAttachment =
  ia_responseId :: nat
  ia_filename :: string
  ia_originalName :: string
  ia_mimeType :: string
  ia_size :: nat

record insertUser =
  iu_username :: string
  iu_password :: string
  iu_email :: string
  iu_fullName :: string
  iu_role :: "string option"
  iu_tenantId :: "nat option"

text \<open>A notification written by \<^verbatim>\<open>ConsoleEmailService\<close> (server/email.ts).\<close>

datatype notification =
  ResponseAdded string string nat
| FileUploaded string string nat string

section \<open>The store and the file system\<close>

text \<open>A \<^verbatim>\<open>Buffer\<close> is a sequence of bytes.\<close>

type_synonym buffer = "char list"

text \<open>
  The state the request handlers thread through: the tables, the auto-increment
  counters of the tables the handlers insert into, the upload directory (storage key to
  bytes) and the lines the e-mail service has logged.
\<close>

record store =
  users :: "user list"
  tenants :: "tenant list"
  questions :: "question list"
  tenantQuestions :: "tenantQuestion list"
  responses :: "response list"
  attachments :: "attachment list"
  userSeq :: nat
  tenantQuestionSeq :: nat
  responseSeq :: nat
  files :: "string \<rightharpoonup> buffer"
  outbox :: "notification list"

text \<open>
  What a handler can throw: the stubs of storage.ts
  (\<^verbatim>\<open>throw new Error("Method not implemented.")\<close>), the two rejections of the multer
  upload middleware, a constraint of the schema refused by the database (foreign key,
  unique column, length of a \<^verbatim>\<open>varchar\<close>), a \<^verbatim>\<open>TypeError\<close> (a property read on
  \<^verbatim>\<open>null\<close>, a call of a method the object does not have, a destructuring of a value
  that is not iterable), a \<^verbatim>\<open>ReferenceError\<close> (an identifier that is not bound), and
  a file that is not in the upload directory.
\<close>

datatype error =
  NotImplemented
| UnsupportedFileType string
| LimitFileSize
| ForeignKeyViolation
| UniqueViolation
| ValueTooLong
| TypeError
| ReferenceError
| NoSuchFile

text \<open>
  What a handler answers: \<^verbatim>\<open>res.status(n).json(body)\<close>, a status with a message
  only, or \<^verbatim>\<open>next(error)\<close>.
\<close>

datatype 'a http = Json nat 'a | Message nat string | NextError error

section \<open>Repository layer (server/storage.ts)\<close>

definition getUser :: "store \<Rightarrow> nat \<Rightarrow> user option" where
  "getUser st i = find (\<lambda>u. user_id u = i) (users st)"


definition getUsersByTenant :: "store \<Rightarrow> nat \<Rightarrow> user list" where
  "getUsersByTenant st t = filter (\<lambda>u. user_tenantId u = Some t) (users st)"


definition getQuestion :: "store \<Rightarrow> nat \<Rightarrow> question option" where
  "getQuestion st i = find (\<lambda>q. question_id q = i) (questions st)"


definition getTenantQuestion :: "store \<Rightarrow> nat \<Rightarrow> tenantQuestion option" where
  "getTenantQuestion st i = find (\<lambda>r. tq_id r = i) (tenantQuestions st)"


definition getResponse :: "store \<Rightarrow> nat \<Rightarrow> response option" where
  "getResponse st i = find (\<lambda>r. response_id r = i) (responses st)"

definition getResponsesByTenantQuestion :: "store \<Rightarrow> nat \<Rightarrow> response list" where
  "getResponsesByTenantQuestion st i =
     filter (\<lambda>r. response_tenantQuestionId r = i) (responses st)"





text \<open>
  \<^verbatim>\<open>createResponse\<close>: refused when the tenant question or the user does not exist
  (foreign keys of \<^verbatim>\<open>responses\<close>); \<^verbatim>\<open>created_at\<close> defaults to the current time.
  It has the shape of \<^verbatim>\<open>createTenantQuestion\<close>: the row is written, then the
  destructuring throws.
\<close>

definition createResponse ::
  "store \<Rightarrow> int \<Rightarrow> insertResponse \<Rightarrow> (error + (insertResponse \<times> nat)) \<times> store" where
  "createResponse st now p =
     (if getTenantQuestion st (ir_tenantQuestionId p) = None \<or> getUser st (ir_userId p) = None
        then (Inl ForeignKeyViolation, st)
      else
        let row = \<lparr> response_id = responseSeq st,
                    response_tenantQuestionId = ir_tenantQuestionId p,
                    response_userId = ir_userId p, response_content = ir_content p,
                    response_createdAt = now \<rparr>
        in (Inl TypeError,
            st\<lparr> responses := responses st @ [row],
                responseSeq := Suc (responseSeq st) \<rparr>))"

text \<open>The attachment operations and the dashboard data are stubs that throw.\<close>

definition createAttachment :: "store \<Rightarrow> insertAttachment \<Rightarrow> error + (attachment \<times> store)" where
  "createAttachment st a = Inl NotImplemented"

definition getAttachment :: "store \<Rightarrow> nat \<Rightarrow> error + attachment option" where
  "getAttachment st i = Inl NotImplemented"

definition getAttachmentsByResponse :: "store \<Rightarrow> nat \<Rightarrow> error + attachment list" where
  "getAttachmentsByResponse st i = Inl NotImplemented"

text \<open>
  The routes call two methods that the class \<^verbatim>\<open>Storage\<close> does not define,
  \<^verbatim>\<open>storage.updateTenantQuestion\<close> and \<^verbatim>\<open>storage.getTenantQuestionsByTenant\<close>:
  the property is \<^verbatim>\<open>undefined\<close> and calling it throws a \<^verbatim>\<open>TypeError\<close> ("is not
  a function"), whatever the arguments.
\<close>

definition updateTenantQuestion :: "store \<Rightarrow> nat \<Rightarrow> string \<Rightarrow> error + tenantQuestion option" where
  "updateTenantQuestion st i s = Inl TypeError"

definition getTenantQuestionsByTenant :: "store \<Rightarrow> nat \<Rightarrow> error + tenantQuestion list" where
  "getTenantQuestionsByTenant st t = Inl TypeError"

text \<open>
  The value the dashboard page reads from \<^verbatim>\<open>progress\<close>; \<^verbatim>\<open>getTenantProgress\<close>
  itself is a stub that throws.
\<close>

record domainProgress =
  dp_domain :: string
  dp_answered :: nat
  dp_total :: nat
  dp_progress :: nat

record progress =
  overallCompletion :: nat
  progress_domains :: "domainProgress list"
  progress_answered :: nat
  progress_totalQuestions :: nat

definition getTenantProgress :: "store \<Rightarrow> nat \<Rightarrow> error + progress" where
  "getTenantProgress st t = Inl NotImplemented"

section \<open>File storage (server/file-storage.ts)\<close>

text \<open>
  \<^verbatim>\<open>path.extname\<close> on a name without trailing separators: from the last dot of the
  last path segment to its end; empty when there is no dot, when the only dot is the
  first character, and for \<^verbatim>\<open>..\<close>.
\<close>

definition extname :: "string \<Rightarrow> string" where
  "extname p =
     (let b = rev (takeWhile (\<lambda>c. c \<noteq> CHR ''/'') (rev p));
          e = takeWhile (\<lambda>c. c \<noteq> CHR ''.'') (rev b)
      in if length e = length b \<or> Suc (length e) = length b \<or> b = ''..'' then []
         else CHR ''.'' # rev e)"

record savedFileInfo =
  sf_filename :: string
  sf_originalName :: string
  sf_mimeType :: string
  sf_size :: nat

text \<open>The \<open>uuid\<close> argument is the value \<^verbatim>\<open>uuidv4()\<close> draws.\<close>

definition saveFile :: "store \<Rightarrow> string \<Rightarrow> buffer \<Rightarrow> string \<Rightarrow> string \<Rightarrow> savedFileInfo \<times> store" where
  "saveFile st uuid buf originalFilename mimeType =
     (let uniqueFilename = uuid @ extname originalFilename
      in (\<lparr> sf_filename = uniqueFilename, sf_originalName = originalFilename,
            sf_mimeType = mimeType, sf_size = length buf \<rparr>,
          st\<lparr> files := (files st)(uniqueFilename \<mapsto> buf) \<rparr>))"

definition getFile :: "store \<Rightarrow> string \<Rightarrow> error + buffer" where
  "getFile st filename = (case files st filename of None \<Rightarrow> Inl NoSuchFile | Some b \<Rightarrow> Inr b)"

section \<open>Upload middleware (multer configuration of the routes)\<close>

record uploadedFile =
  file_buffer :: buffer
  file_originalname :: string
  file_mimetype :: string

definition allowedMimetypes :: "string list" where
  "allowedMimetypes =
     [''application/pdf'',
      ''application/msword'',
      ''application/vnd.openxmlformats-officedocument.wordprocessingml.document'',
      ''image/png'',
      ''image/jpeg'']"

definition fileSizeLimit :: nat where
  "fileSizeLimit = 10 * 1024 * 1024"

text \<open>
  \<^verbatim>\<open>upload.single("file")\<close>: no file part leaves \<^verbatim>\<open>req.file\<close> undefined; the file
  filter runs on the part's header, before its bytes are read; a file that reaches
  \<^verbatim>\<open>limits.fileSize\<close> bytes is refused (the stream is cut at the limit, so a file of
  exactly that size is refused like a longer one).
\<close>

definition upload_single :: "uploadedFile option \<Rightarrow> error + uploadedFile option" where
  "upload_single part =
     (case part of
        None \<Rightarrow> Inr None
      | Some f \<Rightarrow>
          if file_mimetype f \<notin> set allowedMimetypes then Inl (UnsupportedFileType (file_mimetype f))
          else if fileSizeLimit \<le> length (file_buffer f) then Inl LimitFileSize
          else Inr (Some f))"

section \<open>Request handlers (server/routes.ts)\<close>

text \<open>
  Every handler takes the store, the inputs of the request and, where the route reads
  \<^verbatim>\<open>req.user\<close> or could, the authenticated principal; it returns the answer and the
  store after the request. \<open>now\<close> is the database's current time.
\<close>

subsection \<open>Body validation\<close>


record responseBody =
  rb_tenantQuestionId :: "nat field"
  rb_userId :: "nat field"
  rb_content :: "string field"


text \<open>
  \<^verbatim>\<open>insertResponseSchema\<close>: three required columns; the content is any string, the
  schema puts no bound on its length and does not trim it.
\<close>

fun insertResponseSchema :: "responseBody \<Rightarrow> insertResponse option" where
  "insertResponseSchema b =
     (case (rb_tenantQuestionId b, rb_userId b, rb_content b) of
        (Given t, Given u, Given c) \<Rightarrow>
          Some \<lparr> ir_tenantQuestionId = t, ir_userId = u, ir_content = c \<rparr>
      | _ \<Rightarrow> None)"

subsection \<open>POST /api/admin/tenant-questions\<close>


subsection \<open>PUT /api/tenant/:tenantId/questions/:id/status\<close>

definition statuses :: "string list" where
  "statuses = [''Unanswered'', ''In Progress'', ''Answered'']"

text \<open>The route reads neither its \<^verbatim>\<open>:tenantId\<close> parameter nor \<^verbatim>\<open>req.user\<close>.\<close>

definition setStatus ::
  "store \<Rightarrow> int \<Rightarrow> nat \<Rightarrow> nat \<Rightarrow> string \<Rightarrow> user \<Rightarrow> tenantQuestion http \<times> store" where
  "setStatus st now tenantIdParam i status actingUser =
     (if status \<notin> set statuses then (Message 400 ''Invalid status'', st)
      else
        (case updateTenantQuestion st i status of
           Inl e \<Rightarrow> (NextError e, st)
         | Inr None \<Rightarrow> (Message 404 ''Tenant question not found'', st)
         | Inr (Some r) \<Rightarrow> (Json 200 r, st)))"

subsection \<open>GET /api/tenant-questions/:id/responses\<close>

record userProjection =
  up_id :: nat
  up_fullName :: string
  up_role :: string

definition projectUser :: "user option \<Rightarrow> userProjection option" where
  "projectUser u =
     map_option (\<lambda>x. \<lparr> up_id = user_id x, up_fullName = user_fullName x, up_role = user_role x \<rparr>) u"

record responseWithDetails =
  rd_response :: response
  rd_user :: "userProjection option"
  rd_attachments :: "attachment list"

text \<open>
  The callback of \<^verbatim>\<open>responses.map\<close> under \<^verbatim>\<open>Promise.all\<close>: one rejection rejects
  the whole.
\<close>

fun responsesWithDetails :: "store \<Rightarrow> response list \<Rightarrow> error + responseWithDetails list" where
  "responsesWithDetails st [] = Inr []"
| "responsesWithDetails st (r # rs) =
     (case getAttachmentsByResponse st (response_id r) of
        Inl e \<Rightarrow> Inl e
      | Inr as \<Rightarrow>
          (case responsesWithDetails st rs of
             Inl e \<Rightarrow> Inl e
           | Inr ds \<Rightarrow>
               Inr (\<lparr> rd_response = r, rd_user = projectUser (getUser st (response_userId r)),
                      rd_attachments = as \<rparr> # ds)))"

definition listResponses :: "store \<Rightarrow> nat \<Rightarrow> user \<Rightarrow> responseWithDetails list http" where
  "listResponses st tenantQuestionId actingUser =
     (case getTenantQuestion st tenantQuestionId of
        None \<Rightarrow> Message 404 ''Tenant question not found''
      | Some tenantQuestion \<Rightarrow>
          if user_role actingUser \<noteq> ''Admin''
             \<and> user_tenantId actingUser \<noteq> Some (tq_tenantId tenantQuestion)
          then Message 403 ''You don't have permission to access this data''
          else
            (case responsesWithDetails st (getResponsesByTenantQuestion st tenantQuestionId) of
               Inl e \<Rightarrow> NextError e
             | Inr ds \<Rightarrow> Json 200 ds))"

subsection \<open>POST /api/tenant-questions/:id/responses\<close>

record postedResponse =
  pr_response :: insertResponse
  pr_id :: nat
  pr_user :: "userProjection option"
  pr_attachments :: "attachment list"

text \<open>
  The notification loop: every user of the tenant but the poster; \<^verbatim>\<open>question!.title\<close>
  throws when the question is \<^verbatim>\<open>null\<close>.
\<close>

fun sendResponseAdded ::
  "question option \<Rightarrow> nat \<Rightarrow> nat \<Rightarrow> user list \<Rightarrow> notification list \<Rightarrow> error + notification list" where
  "sendResponseAdded q tenantQuestionId current [] log = Inr log"
| "sendResponseAdded q tenantQuestionId current (u # us) log =
     (if user_id u \<noteq> current then
        (case q of
           None \<Rightarrow> Inl TypeError
         | Some qq \<Rightarrow>
             sendResponseAdded q tenantQuestionId current us
               (log @ [ResponseAdded (user_email u) (question_title qq) tenantQuestionId]))
      else sendResponseAdded q tenantQuestionId current us log)"

definition postResponse ::
  "store \<Rightarrow> int \<Rightarrow> nat \<Rightarrow> responseBody \<Rightarrow> user \<Rightarrow> postedResponse http \<times> store" where
  "postResponse st now tenantQuestionId body currentUser =
     (case insertResponseSchema body of
        None \<Rightarrow> (Message 400 ''Validation error'', st)
      | Some valid \<Rightarrow>
          (case getTenantQuestion st tenantQuestionId of
             None \<Rightarrow> (Message 404 ''Tenant question not found'', st)
           | Some tenantQuestion \<Rightarrow>
               if user_role currentUser \<noteq> ''Admin'' \<and> user_role currentUser \<noteq> ''Consultant''
                  \<and> user_tenantId currentUser \<noteq> Some (tq_tenantId tenantQuestion)
               then (Message 403 ''You don't have permission to add responses to this question'', st)
               else
                 (case createResponse st now
                         \<lparr> ir_tenantQuestionId = tenantQuestionId, ir_userId = user_id currentUser,
                           ir_content = ir_content valid \<rparr> of
                    (Inl e, st1) \<Rightarrow> (NextError e, st1)
                  | (Inr (payload, newId), st1) \<Rightarrow>
                      (case getTenantQuestion st1 tenantQuestionId of
                         None \<Rightarrow> (NextError TypeError, st1)
                       | Some again \<Rightarrow>
                           (case sendResponseAdded (getQuestion st1 (tq_questionId again))
                                   tenantQuestionId (user_id currentUser)
                                   (getUsersByTenant st1 (tq_tenantId tenantQuestion)) (outbox st1) of
                              Inl e \<Rightarrow> (NextError e, st1)
                            | Inr log \<Rightarrow>
                                (Json 201
                                   \<lparr> pr_response = payload, pr_id = newId,
                                     pr_user = projectUser (getUser st1 (ir_userId payload)),
                                     pr_attachments = [] \<rparr>,
                                 st1\<lparr> outbox := log \<rparr>))))))"

subsection \<open>POST /api/responses/:id/attachments\<close>

fun sendFileUploaded ::
  "question option \<Rightarrow> nat \<Rightarrow> string \<Rightarrow> nat \<Rightarrow> user list \<Rightarrow> notification list
     \<Rightarrow> error + notification list" where
  "sendFileUploaded q tenantQuestionId name current [] log = Inr log"
| "sendFileUploaded q tenantQuestionId name current (u # us) log =
     (if user_id u \<noteq> current then
        (case q of
           None \<Rightarrow> Inl TypeError
         | Some qq \<Rightarrow>
             sendFileUploaded q tenantQuestionId name current us
               (log @ [FileUploaded (user_email u) (question_title qq) tenantQuestionId name]))
      else sendFileUploaded q tenantQuestionId name current us log)"

definition attachFile ::
  "store \<Rightarrow> string \<Rightarrow> nat \<Rightarrow> uploadedFile option \<Rightarrow> user \<Rightarrow> attachment http \<times> store" where
  "attachFile st uuid responseId part actingUser =
     (case upload_single part of
        Inl e \<Rightarrow> (NextError e, st)
      | Inr None \<Rightarrow> (Message 400 ''No file uploaded'', st)
      | Inr (Some file) \<Rightarrow>
          (case getResponse st responseId of
             None \<Rightarrow> (Message 404 ''Response not found'', st)
           | Some response \<Rightarrow>
               if user_id actingUser \<noteq> response_userId response \<and> user_role actingUser \<noteq> ''Admin''
               then (Message 403 ''You don't have permission to add attachments to this response'', st)
               else
                 (case saveFile st uuid (file_buffer file) (file_originalname file) (file_mimetype file) of
                    (savedFile, st1) \<Rightarrow>
                      (case createAttachment st1
                              \<lparr> ia_responseId = responseId, ia_filename = sf_filename savedFile,
                                ia_originalName = sf_originalName savedFile,
                                ia_mimeType = sf_mimeType savedFile, ia_size = sf_size savedFile \<rparr> of
                         Inl e \<Rightarrow> (NextError e, st1)
                       | Inr (created, st2) \<Rightarrow>
                           (case getTenantQuestion st2 (response_tenantQuestionId response) of
                              None \<Rightarrow> (NextError TypeError, st2)
                            | Some tenantQuestion \<Rightarrow>
                                (case sendFileUploaded (getQuestion st2 (tq_questionId tenantQuestion))
                                        (tq_id tenantQuestion) (sf_originalName savedFile)
                                        (user_id actingUser)
                                        (getUsersByTenant st2 (tq_tenantId tenantQuestion))
                                        (outbox st2) of
                                   Inl e \<Rightarrow> (NextError e, st2)
                                 | Inr log \<Rightarrow> (Json 201 created, st2\<lparr> outbox := log \<rparr>)))))))"

subsection \<open>GET /api/attachments/:id\<close>

definition downloadAttachment :: "store \<Rightarrow> nat \<Rightarrow> user \<Rightarrow> buffer http" where
  "downloadAttachment st attachmentId actingUser =
     (case getAttachment st attachmentId of
        Inl e \<Rightarrow> NextError e
      | Inr None \<Rightarrow> Message 404 ''Attachment not found''
      | Inr (Some a) \<Rightarrow>
          (case getResponse st (attachment_responseId a) of
             None \<Rightarrow> NextError TypeError
           | Some response \<Rightarrow>
               (case getTenantQuestion st (response_tenantQuestionId response) of
                  None \<Rightarrow> NextError TypeError
                | Some tenantQuestion \<Rightarrow>
                    if user_role actingUser \<noteq> ''Admin'' \<and> user_role actingUser \<noteq> ''Consultant''
                       \<and> user_tenantId actingUser \<noteq> Some (tq_tenantId tenantQuestion)
                    then Message 403 ''You don't have permission to access this file''
                    else
                      (case getFile st (attachment_filename a) of
                         Inl e \<Rightarrow> NextError e
                       | Inr fileBuffer \<Rightarrow> Json 200 fileBuffer))))"

subsection \<open>GET /api/tenant/:tenantId/dashboard\<close>

record activity =
  act_type :: string
  act_user :: "userProjection option"
  act_questionTitle :: "string option"
  act_questionId :: nat
  act_date :: int

text \<open>The entry pushed for a tenant question whose thread is not empty.\<close>

definition latestActivity :: "store \<Rightarrow> tenantQuestion \<Rightarrow> response list \<Rightarrow> activity" where
  "latestActivity st tq rs =
     (let latestResponse = last rs
      in \<lparr> act_type = ''response'',
           act_user = projectUser (getUser st (response_userId latestResponse)),
           act_questionTitle = map_option question_title (getQuestion st (tq_questionId tq)),
           act_questionId = tq_id tq,
           act_date = response_createdAt latestResponse \<rparr>)"

text \<open>The loop over the tenant questions.\<close>

fun collectActivities :: "store \<Rightarrow> tenantQuestion list \<Rightarrow> activity list" where
  "collectActivities st [] = []"
| "collectActivities st (tq # tqs) =
     (let rs = getResponsesByTenantQuestion st (tq_id tq)
      in if 0 < length rs then latestActivity st tq rs # collectActivities st tqs
         else collectActivities st tqs)"

text \<open>
  \<^verbatim>\<open>recentActivities.sort((a, b) => b.date.getTime() - a.date.getTime()).slice(0, 5)\<close>
  over the first five tenant questions; the sort is stable. \<open>tqs\<close> is
  the list that \<^verbatim>\<open>storage.getTenantQuestionsByTenant(tenantId)\<close> returned.
\<close>

definition recentActivities :: "store \<Rightarrow> tenantQuestion list \<Rightarrow> activity list" where
  "recentActivities st tqs =
     take 5 (sort_key (\<lambda>a. - act_date a) (collectActivities st (take 5 tqs)))"

definition dashboard :: "store \<Rightarrow> nat \<Rightarrow> (progress \<times> activity list) http" where
  "dashboard st tenantId =
     (case getTenantProgress st tenantId of
        Inl e \<Rightarrow> NextError e
      | Inr p \<Rightarrow>
          (case getTenantQuestionsByTenant st tenantId of
             Inl e \<Rightarrow> NextError e
           | Inr tqs \<Rightarrow> Json 200 (p, recentActivities st tqs)))"

subsection \<open>GET /api/admin/users\<close>

text \<open>A user row as the JSON object the handler destructures: its keys in column order.\<close>

datatype jvalue = JNull | JNumber int | JString string

type_synonym jobject = "(string \<times> jvalue) list"

definition userObject :: "user \<Rightarrow> jobject" where
  "userObject u =
     [(''id'', JNumber (int (user_id u))),
      (''username'', JString (user_username u)),
      (''password'', JString (user_password u)),
      (''email'', JString (user_email u)),
      (''fullName'', JString (user_fullName u)),
      (''role'', JString (user_role u)),
      (''tenantId'', (case user_tenantId u of None \<Rightarrow> JNull | Some t \<Rightarrow> JNumber (int t))),
      (''createdAt'', JNumber (user_createdAt u))]"

text \<open>\<^verbatim>\<open>const { password, ...userWithoutPassword } = user\<close>\<close>

definition userWithoutPassword :: "jobject \<Rightarrow> jobject" where
  "userWithoutPassword obj = filter (\<lambda>(k, v). k \<noteq> ''password'') obj"

text \<open>
  The loop \<^verbatim>\<open>for (let i = 1; i < (storage as any).userId; i++)\<close>, for a numeric bound.
\<close>

function usersBelow :: "store \<Rightarrow> nat \<Rightarrow> nat \<Rightarrow> user list" where
  "usersBelow st i bound =
     (if i < bound then
        (case getUser st i of
           Some u \<Rightarrow> u # usersBelow st (Suc i) bound
         | None \<Rightarrow> usersBelow st (Suc i) bound)
      else [])"
  by pat_completeness auto
termination
  by (relation "measure (\<lambda>(st, i, bound). bound - i)") auto

declare usersBelow.simps [simp del]

text \<open>
  \<open>tenantIdQuery\<close> is the parsed query parameter (\<open>None\<close> when it is missing or not a
  number, both falsy, as is 0). \<open>storageUserId\<close> is what \<^verbatim>\<open>(storage as any).userId\<close>
  reads: the class \<^verbatim>\<open>Storage\<close> of storage.ts has no such property, so it is
  \<open>None\<close> there and \<^verbatim>\<open>1 < undefined\<close> is false.
\<close>

definition adminUsers :: "store \<Rightarrow> nat option \<Rightarrow> nat option \<Rightarrow> jobject list http" where
  "adminUsers st storageUserId tenantIdQuery =
     (let us =
        (case tenantIdQuery of
           Some t \<Rightarrow>
             if t \<noteq> 0 then getUsersByTenant st t
             else (case storageUserId of None \<Rightarrow> [] | Some n \<Rightarrow> usersBelow st 1 n)
         | None \<Rightarrow> (case storageUserId of None \<Rightarrow> [] | Some n \<Rightarrow> usersBelow st 1 n))
      in Json 200 (map (\<lambda>u. userWithoutPassword (userObject u)) us))"

subsection \<open>POST /api/register\<close>




section \<open>Sequences of requests\<close>





section \<open>Example stores\<close>

text \<open>
  Two tenants (5 and 7), one question assigned to tenant 7, a customer of each tenant and
  a consultant bound to no tenant.
\<close>

definition customer5 :: user where
  "customer5 = \<lparr> user_id = 1, user_username = ''carol'', user_password = ''h1'',
      user_email = ''carol@five.example'', user_fullName = ''Carol Five'',
      user_role = ''Customer'', user_tenantId = Some 5, user_createdAt = 10 \<rparr>"

definition customer7 :: user where
  "customer7 = \<lparr> user_id = 2, user_username = ''dave'', user_password = ''h2'',
      user_email = ''dave@seven.example'', user_fullName = ''Dave Seven'',
      user_role = ''Customer'', user_tenantId = Some 7, user_createdAt = 11 \<rparr>"

definition consultant :: user where
  "consultant = \<lparr> user_id = 3, user_username = ''erin'', user_password = ''h3'',
      user_email = ''erin@consult.example'', user_fullName = ''Erin Consult'',
      user_role = ''Consultant'', user_tenantId = None, user_createdAt = 12 \<rparr>"

definition tenant5 :: tenant where
  "tenant5 = \<lparr> tenant_id = 5, tenant_name = ''Five'', tenant_description = None,
      tenant_industry = None, tenant_createdAt = 1 \<rparr>"

definition tenant7 :: tenant where
  "tenant7 = \<lparr> tenant_id = 7, tenant_name = ''Seven'', tenant_description = None,
      tenant_industry = None, tenant_createdAt = 2 \<rparr>"

definition question1 :: question where
  "question1 = \<lparr> question_id = 1, question_title = ''Who approves access?'',
      question_description = None, question_domainId = 1, question_required = Some False,
      question_tags = None, question_createdAt = 3, question_updatedAt = 3 \<rparr>"

definition assigned71 :: tenantQuestion where
  "assigned71 = \<lparr> tq_id = 1, tq_tenantId = 7, tq_questionId = 1,
      tq_status = Some ''Unanswered'', tq_lastUpdated = 20 \<rparr>"

definition exampleStore :: store where
  "exampleStore = \<lparr> users = [customer5, customer7, consultant], tenants = [tenant5, tenant7],
      questions = [question1], tenantQuestions = [assigned71], responses = [],
      attachments = [], userSeq = 4, tenantQuestionSeq = 2, responseSeq = 1,
      files = Map.empty, outbox = [] \<rparr>"

text \<open>The same store with a thread of two responses under the tenant question.\<close>

definition threadStore :: store where
  "threadStore = exampleStore\<lparr> responses :=
      [\<lparr> response_id = 1, response_tenantQuestionId = 1, response_userId = 2,
         response_content = ''first'', response_createdAt = 100 \<rparr>,
       \<lparr> response_id = 2, response_tenantQuestionId = 1, response_userId = 3,
         response_content = ''second'', response_createdAt = 200 \<rparr>],
      responseSeq := 3 \<rparr>"

text \<open>A store with tenant 7 and one question, before any user or assignment exists.\<close>

definition freshStore :: store where
  "freshStore = \<lparr> users = [], tenants = [tenant7],
      questions = [question1], tenantQuestions = [], responses = [],
      attachments = [], userSeq = 1, tenantQuestionSeq = 1, responseSeq = 1,
      files = Map.empty, outbox = [] \<rparr>"

definition registration :: "string \<Rightarrow> insertUser" where
  "registration name = \<lparr> iu_username = name, iu_password = ''secret'',
      iu_email = name @ ''@seven.example'', iu_fullName = name, iu_role = None,
      iu_tenantId = Some 7 \<rparr>"

text \<open>A PNG upload of four bytes and uploads used at the edges of the filter.\<close>

definition pngUpload :: "buffer \<Rightarrow> uploadedFile" where
  "pngUpload buf = \<lparr> file_buffer = buf, file_originalname = ''shot.png'',
      file_mimetype = ''image/png'' \<rparr>"

definition zipUpload :: uploadedFile where
  "zipUpload = \<lparr> file_buffer = ''PK'', file_originalname = ''all.zip'',
      file_mimetype = ''application/zip'' \<rparr>"

lemmas example_defs = exampleStore_def threadStore_def freshStore_def customer5_def customer7_def
  consultant_def tenant5_def tenant7_def question1_def assigned71_def registration_def
  pngUpload_def zipUpload_def

section \<open>Lemmas on the handlers\<close>

text \<open>The guard of the read path, for any store: only the role Admin passes it by role.\<close>

lemma listResponses_forbidden_iff:
  assumes "getTenantQuestion st i = Some tq"
  shows "(listResponses st i u = Message 403 ''You don't have permission to access this data'')
       = (user_role u \<noteq> ''Admin'' \<and> user_tenantId u \<noteq> Some (tq_tenantId tq))"
  using assms by (auto simp: listResponses_def split: sum.splits)







text \<open>The file storage returns what was saved under the key it handed out.\<close>

lemma getFile_saveFile:
  "getFile (snd (saveFile st uuid buf name mime)) (sf_filename (fst (saveFile st uuid buf name mime)))
     = Inr buf"
  by (simp add: getFile_def saveFile_def Let_def)

section \<open>Access to a thread\<close>

text \<open>
  C1. The check on the thread is written out in each route, and the read route's copy
  differs from the write route's: on the tenant question of tenant 7, a Consultant bound
  to no tenant is refused with 403 by \<open>listResponses\<close>, while \<open>postResponse\<close> lets the
  same Consultant through its guard: the response row is written (the request then ends
  in the error that \<open>createResponse\<close> throws after its insert, not in a 403). A
  Customer of tenant 5 is refused by \<open>listResponses\<close>, a Customer of tenant 7 is
  answered (the thread is empty).
\<close>

theorem listResponses_refuses_consultant:
  "listResponses exampleStore 1 consultant
     = Message 403 ''You don't have permission to access this data''
   \<and> postResponse exampleStore 1000 1
         \<lparr> rb_tenantQuestionId = Given 1, rb_userId = Given 3, rb_content = Given ''noted'' \<rparr> consultant
     = (NextError TypeError,
        exampleStore\<lparr> responses :=
            [\<lparr> response_id = 1, response_tenantQuestionId = 1, response_userId = 3,
               response_content = ''noted'', response_createdAt = 1000 \<rparr>],
          responseSeq := 2 \<rparr>)
   \<and> listResponses exampleStore 1 customer5
     = Message 403 ''You don't have permission to access this data''
   \<and> listResponses exampleStore 1 customer7 = Json 200 []"
  by (simp add: listResponses_def postResponse_def createResponse_def getTenantQuestion_def getUser_def
      getResponsesByTenantQuestion_def example_defs)

section \<open>Status updates\<close>

text \<open>
  C2. The status route calls \<open>storage.updateTenantQuestion\<close>, a method the storage
  class does not have, and has no role or tenant guard. So for every status of the
  enumeration the request ends in a TypeError and the store is unchanged: whatever the
  acting user and the tenant question, \<open>setStatus\<close> never updates a row, never answers
  403 and never answers 404. A Customer of tenant 7 (who should be allowed), a Customer
  of tenant 5 (who should be refused) and a request for a tenant question that does not
  exist all get the same error.
\<close>

theorem setStatus_calls_missing_method:
  "(\<forall>n r. fst (setStatus st now t i status u) \<noteq> Json n r)
   \<and> (\<forall>m. fst (setStatus st now t i status u) \<noteq> Message 403 m)
   \<and> (\<forall>m. fst (setStatus st now t i status u) \<noteq> Message 404 m)
   \<and> snd (setStatus st now t i status u) = st
   \<and> setStatus exampleStore 1000 7 1 ''Answered'' customer7 = (NextError TypeError, exampleStore)
   \<and> setStatus exampleStore 1000 7 1 ''Answered'' customer5 = (NextError TypeError, exampleStore)
   \<and> setStatus exampleStore 1000 7 9 ''Answered'' customer7 = (NextError TypeError, exampleStore)"
  by (simp add: setStatus_def updateTenantQuestion_def statuses_def)

section \<open>Assignment of questions to tenants\<close>







section \<open>Progress of a tenant\<close>

text \<open>
  C5. \<open>getTenantProgress\<close> is a stub: for every store and every tenant (one without any
  tenant question included) it throws "Method not implemented." instead of returning a
  completion figure, and the dashboard route, which calls it first, passes the error on.
\<close>

theorem getTenantProgress_not_implemented:
  "getTenantProgress st t = Inl NotImplemented \<and> dashboard st t = NextError NotImplemented"
  by (simp add: getTenantProgress_def dashboard_def)


section \<open>Responses\<close>

text \<open>
  C6, as stated, fails: a body whose content is the empty string is not refused by the
  validation and a row holding the empty content is appended to the thread; a body
  whose content is three blanks appends a row holding the three blanks. (Both requests
  end in the error that \<open>createResponse\<close> throws after its insert, not in a 400.)
\<close>

theorem postResponse_accepts_blank_content:
  "postResponse exampleStore 1000 1
      \<lparr> rb_tenantQuestionId = Given 1, rb_userId = Given 2, rb_content = Given [] \<rparr> customer7
     = (NextError TypeError,
        exampleStore\<lparr> responses :=
            [\<lparr> response_id = 1, response_tenantQuestionId = 1, response_userId = 2,
               response_content = [], response_createdAt = 1000 \<rparr>],
          responseSeq := 2 \<rparr>)
   \<and> responses (snd (postResponse exampleStore 1000 1
         \<lparr> rb_tenantQuestionId = Given 1, rb_userId = Given 2, rb_content = Given ''   '' \<rparr> customer7))
     = [\<lparr> response_id = 1, response_tenantQuestionId = 1, response_userId = 2,
          response_content = ''   '', response_createdAt = 1000 \<rparr>]"
  by (simp add: postResponse_def createResponse_def getTenantQuestion_def getUser_def
      example_defs)

text \<open>
  C6, amended. \<open>postResponse\<close> fails with the validation error (400), leaving the store
  as it was, when the body does not satisfy the insert schema (tenantQuestionId, userId
  or content missing or of the wrong type); the content is not trimmed, and any string,
  the empty one included, is accepted. For every body that satisfies the schema, on an
  existing tenant question, with access granted to an existing user, one Response row is
  appended to the thread, holding the content as sent and createdAt = now, and the
  answer is not a 400.
\<close>

theorem postResponse_schema_validation:
  "(insertResponseSchema body = None \<longrightarrow>
      postResponse st now i body u = (Message 400 ''Validation error'', st))
   \<and> (\<forall>v tq. insertResponseSchema body = Some v \<and> getTenantQuestion st i = Some tq
         \<and> (user_role u = ''Admin'' \<or> user_role u = ''Consultant''
              \<or> user_tenantId u = Some (tq_tenantId tq))
         \<and> getUser st (user_id u) \<noteq> None \<longrightarrow>
         responses (snd (postResponse st now i body u))
           = responses st @
             [\<lparr> response_id = responseSeq st, response_tenantQuestionId = i,
                response_userId = user_id u, response_content = ir_content v,
                response_createdAt = now \<rparr>]
         \<and> (\<forall>m. fst (postResponse st now i body u) \<noteq> Message 400 m))"
proof (intro conjI allI impI)
  assume "insertResponseSchema body = None"
  then show "postResponse st now i body u = (Message 400 ''Validation error'', st)"
    by (simp add: postResponse_def)
next
  fix v tq
  assume h: "insertResponseSchema body = Some v \<and> getTenantQuestion st i = Some tq
         \<and> (user_role u = ''Admin'' \<or> user_role u = ''Consultant''
              \<or> user_tenantId u = Some (tq_tenantId tq))
         \<and> getUser st (user_id u) \<noteq> None"
  let ?row = "\<lparr> response_id = responseSeq st, response_tenantQuestionId = i,
                response_userId = user_id u, response_content = ir_content v,
                response_createdAt = now \<rparr>"
  let ?p = "\<lparr> ir_tenantQuestionId = i, ir_userId = user_id u, ir_content = ir_content v \<rparr>"
  let ?st1 = "st\<lparr> responses := responses st @ [?row], responseSeq := Suc (responseSeq st) \<rparr>"
  have cr: "createResponse st now ?p = (Inl TypeError, ?st1)"
    using h by (auto simp: createResponse_def Let_def)
  have unfold: "postResponse st now i body u = (NextError TypeError, ?st1)"
    using h cr by (auto simp: postResponse_def)
  show "responses (snd (postResponse st now i body u)) = responses st @ [?row]"
    unfolding unfold by simp
  fix m
  show "fst (postResponse st now i body u) \<noteq> Message 400 m"
    unfolding unfold by simp
qed

theorem postResponse_schema_validation_witness:
  "postResponse exampleStore 1000 1
      \<lparr> rb_tenantQuestionId = Given 1, rb_userId = Given 2, rb_content = Absent \<rparr> customer7
     = (Message 400 ''Validation error'', exampleStore)
   \<and> responses (snd (postResponse exampleStore 1000 1
        \<lparr> rb_tenantQuestionId = Given 1, rb_userId = Given 2, rb_content = Given ''We review quarterly'' \<rparr>
        customer7))
     = [\<lparr> response_id = 1, response_tenantQuestionId = 1, response_userId = 2,
          response_content = ''We review quarterly'', response_createdAt = 1000 \<rparr>]"
proof -
  let ?good = "\<lparr> rb_tenantQuestionId = Given 1, rb_userId = Given 2,
                  rb_content = Given ''We review quarterly'' \<rparr>"
  have bad: "insertResponseSchema
               \<lparr> rb_tenantQuestionId = Given 1, rb_userId = Given 2, rb_content = Absent \<rparr> = None"
    by simp
  have good: "insertResponseSchema ?good
               = Some \<lparr> ir_tenantQuestionId = 1, ir_userId = 2, ir_content = ''We review quarterly'' \<rparr>"
    by simp
  have tq: "getTenantQuestion exampleStore 1 = Some assigned71"
    by (simp add: getTenantQuestion_def exampleStore_def assigned71_def)
  have acc: "user_tenantId customer7 = Some (tq_tenantId assigned71)" and uid: "user_id customer7 = 2"
    by (simp_all add: customer7_def assigned71_def)
  have usr: "getUser exampleStore (user_id customer7) \<noteq> None"
    by (simp add: getUser_def exampleStore_def customer5_def customer7_def)
  have rows: "responses exampleStore = []" and seq: "responseSeq exampleStore = 1"
    by (simp_all add: exampleStore_def)
  show ?thesis
    using bad good tq acc uid usr rows seq
      postResponse_schema_validation[where st = exampleStore and now = 1000 and i = 1
        and u = customer7
        and body = "\<lparr> rb_tenantQuestionId = Given 1, rb_userId = Given 2, rb_content = Absent \<rparr>"]
      postResponse_schema_validation[where st = exampleStore and now = 1000 and i = 1
        and u = customer7 and body = ?good]
    by simp
qed

section \<open>Attachments\<close>

text \<open>
  C7. No upload ends in an Attachment row: whatever the store, the file, the response
  and the acting user, \<open>attachFile\<close> never answers with a JSON body (an accepted
  upload is written to the upload directory and then \<open>createAttachment\<close> throws
  "Method not implemented."), the attachments table is unchanged, and
  \<open>downloadAttachment\<close> fails on its first lookup, \<open>getAttachment\<close>, which throws
  the same error. So it is for a PNG of 2 MiB uploaded by the author of response 1: the
  bytes are stored under the generated key and the request fails.
\<close>

theorem attachFile_never_creates_attachment:
  "(\<forall>n a. fst (attachFile st uuid rid part u) \<noteq> Json n a)
   \<and> attachments (snd (attachFile st uuid rid part u)) = attachments st
   \<and> downloadAttachment st aid u = NextError NotImplemented
   \<and> attachFile threadStore ''0b5e'' 1
         (Some (pngUpload (replicate (2 * 1024 * 1024) CHR ''x''))) customer7
       = (NextError NotImplemented,
          threadStore\<lparr> files := (files threadStore)
                         (''0b5e.png'' \<mapsto> replicate (2 * 1024 * 1024) CHR ''x'') \<rparr>)"
proof (intro conjI allI)
  fix n a
  show "fst (attachFile st uuid rid part u) \<noteq> Json n a"
    by (auto simp: attachFile_def createAttachment_def saveFile_def Let_def
        split: sum.splits option.splits prod.splits)
  show "attachments (snd (attachFile st uuid rid part u)) = attachments st"
    by (auto simp: attachFile_def createAttachment_def saveFile_def Let_def
        split: sum.splits option.splits prod.splits)
  show "downloadAttachment st aid u = NextError NotImplemented"
    by (simp add: downloadAttachment_def getAttachment_def)
  show "attachFile threadStore ''0b5e'' 1
         (Some (pngUpload (replicate (2 * 1024 * 1024) CHR ''x''))) customer7
       = (NextError NotImplemented,
          threadStore\<lparr> files := (files threadStore)
                         (''0b5e.png'' \<mapsto> replicate (2 * 1024 * 1024) CHR ''x'') \<rparr>)"
    by (simp add: attachFile_def upload_single_def allowedMimetypes_def fileSizeLimit_def
        getResponse_def saveFile_def createAttachment_def extname_def Let_def
        pngUpload_def threadStore_def exampleStore_def customer7_def)
qed

text \<open>
  C8, as stated, fails at the edge of the limit: a PNG of exactly 10 MiB, whose size is
  within the maximum, is refused with the size-limit error.
\<close>

theorem attachFile_rejects_file_of_exactly_10_MiB:
  "file_mimetype (pngUpload (replicate (10 * 1024 * 1024) CHR ''x'')) \<in> set allowedMimetypes
   \<and> length (file_buffer (pngUpload (replicate (10 * 1024 * 1024) CHR ''x''))) = 10 * 1024 * 1024
   \<and> attachFile threadStore ''0b5e'' 1
        (Some (pngUpload (replicate (10 * 1024 * 1024) CHR ''x''))) customer7
      = (NextError LimitFileSize, threadStore)"
  by (simp add: attachFile_def upload_single_def allowedMimetypes_def fileSizeLimit_def
      pngUpload_def)

text \<open>
  C8, amended. \<open>attachFile\<close> rejects every upload whose MIME type is outside the
  allow-list (pdf, doc, docx, png, jpeg) with the unsupported-file-type error, which is
  the code's form of the specification's UnsupportedMediaType, and rejects every upload
  of 10 MiB or more (with the size-limit error, or with the unsupported-type error when
  its type is outside the list as well); in both cases the store is unchanged. An upload
  whose type is in the list and whose size is below 10 MiB is not rejected by these
  checks: the answer is neither of the two errors, and when the response exists and the
  acting user is its author or an Admin, the bytes are written to the upload directory
  under the generated key.
\<close>

theorem attachFile_upload_filter:
  "(file_mimetype f \<notin> set allowedMimetypes \<longrightarrow>
      attachFile st uuid rid (Some f) u = (NextError (UnsupportedFileType (file_mimetype f)), st))
   \<and> (10 * 1024 * 1024 \<le> length (file_buffer f) \<longrightarrow>
      (\<exists>e. attachFile st uuid rid (Some f) u = (NextError e, st)
           \<and> (e = LimitFileSize \<or> e = UnsupportedFileType (file_mimetype f))))
   \<and> (file_mimetype f \<in> set allowedMimetypes \<and> 10 * 1024 * 1024 \<le> length (file_buffer f) \<longrightarrow>
      attachFile st uuid rid (Some f) u = (NextError LimitFileSize, st))
   \<and> (file_mimetype f \<in> set allowedMimetypes \<and> length (file_buffer f) < 10 * 1024 * 1024 \<longrightarrow>
      upload_single (Some f) = Inr (Some f)
      \<and> fst (attachFile st uuid rid (Some f) u) \<noteq> NextError LimitFileSize
      \<and> (\<forall>m. fst (attachFile st uuid rid (Some f) u) \<noteq> NextError (UnsupportedFileType m))
      \<and> (\<forall>r. getResponse st rid = Some r
               \<and> (user_id u = response_userId r \<or> user_role u = ''Admin'') \<longrightarrow>
             files (snd (attachFile st uuid rid (Some f) u)) (uuid @ extname (file_originalname f))
               = Some (file_buffer f)))
   \<and> set allowedMimetypes
      = {''application/pdf'', ''application/msword'',
         ''application/vnd.openxmlformats-officedocument.wordprocessingml.document'',
         ''image/png'', ''image/jpeg''}"
proof -
  have c1: "file_mimetype f \<notin> set allowedMimetypes \<longrightarrow>
      attachFile st uuid rid (Some f) u = (NextError (UnsupportedFileType (file_mimetype f)), st)"
    by (simp add: attachFile_def upload_single_def)
  have c2: "10 * 1024 * 1024 \<le> length (file_buffer f) \<longrightarrow>
      (\<exists>e. attachFile st uuid rid (Some f) u = (NextError e, st)
           \<and> (e = LimitFileSize \<or> e = UnsupportedFileType (file_mimetype f)))"
    by (simp add: attachFile_def upload_single_def fileSizeLimit_def)
  have c3: "file_mimetype f \<in> set allowedMimetypes \<and> 10 * 1024 * 1024 \<le> length (file_buffer f) \<longrightarrow>
      attachFile st uuid rid (Some f) u = (NextError LimitFileSize, st)"
    by (simp add: attachFile_def upload_single_def fileSizeLimit_def)
  have c4: "file_mimetype f \<in> set allowedMimetypes \<and> length (file_buffer f) < 10 * 1024 * 1024 \<longrightarrow>
      upload_single (Some f) = Inr (Some f)
      \<and> fst (attachFile st uuid rid (Some f) u) \<noteq> NextError LimitFileSize
      \<and> (\<forall>m. fst (attachFile st uuid rid (Some f) u) \<noteq> NextError (UnsupportedFileType m))
      \<and> (\<forall>r. getResponse st rid = Some r
               \<and> (user_id u = response_userId r \<or> user_role u = ''Admin'') \<longrightarrow>
             files (snd (attachFile st uuid rid (Some f) u)) (uuid @ extname (file_originalname f))
               = Some (file_buffer f))"
  proof
    assume ok: "file_mimetype f \<in> set allowedMimetypes \<and> length (file_buffer f) < 10 * 1024 * 1024"
    then have pass: "upload_single (Some f) = Inr (Some f)"
      by (simp add: upload_single_def fileSizeLimit_def)
    then show "upload_single (Some f) = Inr (Some f)
      \<and> fst (attachFile st uuid rid (Some f) u) \<noteq> NextError LimitFileSize
      \<and> (\<forall>m. fst (attachFile st uuid rid (Some f) u) \<noteq> NextError (UnsupportedFileType m))
      \<and> (\<forall>r. getResponse st rid = Some r
               \<and> (user_id u = response_userId r \<or> user_role u = ''Admin'') \<longrightarrow>
             files (snd (attachFile st uuid rid (Some f) u)) (uuid @ extname (file_originalname f))
               = Some (file_buffer f))"
      by (auto simp: attachFile_def createAttachment_def saveFile_def Let_def split: option.splits)
  qed
  have c5: "set allowedMimetypes
      = {''application/pdf'', ''application/msword'',
         ''application/vnd.openxmlformats-officedocument.wordprocessingml.document'',
         ''image/png'', ''image/jpeg''}"
    by (auto simp: allowedMimetypes_def)
  show ?thesis
    by (rule conjI[OF c1 conjI[OF c2 conjI[OF c3 conjI[OF c4 c5]]]])
qed

theorem attachFile_upload_filter_witness:
  "attachFile threadStore ''k1'' 1 (Some zipUpload) customer7
     = (NextError (UnsupportedFileType ''application/zip''), threadStore)
   \<and> attachFile threadStore ''k2'' 1 (Some (pngUpload (replicate (15 * 1024 * 1024) CHR ''x''))) customer7
     = (NextError LimitFileSize, threadStore)
   \<and> upload_single (Some (pngUpload (replicate (2 * 1024 * 1024) CHR ''x'')))
     = Inr (Some (pngUpload (replicate (2 * 1024 * 1024) CHR ''x'')))
   \<and> files (snd (attachFile threadStore ''k3'' 1
                   (Some (pngUpload (replicate (2 * 1024 * 1024) CHR ''x''))) customer7)) ''k3.png''
     = Some (replicate (2 * 1024 * 1024) CHR ''x'')"
proof -
  have z: "file_mimetype zipUpload \<notin> set allowedMimetypes"
    and zt: "file_mimetype zipUpload = ''application/zip''"
    by (simp_all add: zipUpload_def allowedMimetypes_def)
  have p: "file_mimetype (pngUpload b) \<in> set allowedMimetypes" for b
    by (simp add: pngUpload_def allowedMimetypes_def)
  have big: "10 * 1024 * 1024 \<le> length (file_buffer (pngUpload (replicate (15 * 1024 * 1024) CHR ''x'')))"
    by (simp add: pngUpload_def)
  have small: "length (file_buffer (pngUpload (replicate (2 * 1024 * 1024) CHR ''x''))) < 10 * 1024 * 1024"
    by (simp add: pngUpload_def)
  have r: "getResponse threadStore 1
             = Some \<lparr> response_id = 1, response_tenantQuestionId = 1, response_userId = 2,
                      response_content = ''first'', response_createdAt = 100 \<rparr>"
    by (simp add: getResponse_def threadStore_def)
  have a: "user_id customer7 = 2" by (simp add: customer7_def)
  have k: "''k3'' @ extname (file_originalname (pngUpload b)) = ''k3.png''" for b
    by (simp add: extname_def pngUpload_def Let_def)
  have buf: "file_buffer (pngUpload b) = b" for b by (simp add: pngUpload_def)
  show ?thesis
    using z zt p big small r a k buf
      attachFile_upload_filter[where f = zipUpload and st = threadStore and uuid = "''k1''"
        and rid = 1 and u = customer7]
      attachFile_upload_filter[where f = "pngUpload (replicate (15 * 1024 * 1024) CHR ''x'')"
        and st = threadStore and uuid = "''k2''" and rid = 1 and u = customer7]
      attachFile_upload_filter[where f = "pngUpload (replicate (2 * 1024 * 1024) CHR ''x'')"
        and st = threadStore and uuid = "''k3''" and rid = 1 and u = customer7]
    by simp
qed


section \<open>The dashboard and its recent-activity feed\<close>

text \<open>
  C9. The dashboard route never answers with a recent-activity feed: for every store and
  every tenant it ends in an error, because \<open>getTenantProgress\<close>, called first, is a
  stub that throws, and the method that would list the tenant's questions for the feed,
  \<open>getTenantQuestionsByTenant\<close>, is not defined by the storage class either. So it is
  for tenant 7, whose thread holds two responses: no feed of them is returned.
\<close>

theorem dashboard_never_answers_feed:
  "(\<forall>n body. dashboard st t \<noteq> Json n body)
   \<and> getTenantQuestionsByTenant st t = Inl TypeError
   \<and> getResponsesByTenantQuestion threadStore 1
       = [\<lparr> response_id = 1, response_tenantQuestionId = 1, response_userId = 2,
            response_content = ''first'', response_createdAt = 100 \<rparr>,
          \<lparr> response_id = 2, response_tenantQuestionId = 1, response_userId = 3,
            response_content = ''second'', response_createdAt = 200 \<rparr>]
   \<and> dashboard threadStore 7 = NextError NotImplemented"
  by (simp add: dashboard_def getTenantProgress_def getTenantQuestionsByTenant_def
      getResponsesByTenantQuestion_def threadStore_def)

text \<open>
  The computation written behind the stub, for any list of tenant questions handed to
  it: one entry for the last response of each of the first five tenant questions whose
  thread is not empty, at most five entries, sorted by date descending, entries of equal
  date in the order of their tenant questions.
\<close>

lemma collectActivities_map_filter:
  "collectActivities st tqs
     = map (\<lambda>tq. latestActivity st tq (getResponsesByTenantQuestion st (tq_id tq)))
         (filter (\<lambda>tq. getResponsesByTenantQuestion st (tq_id tq) \<noteq> []) tqs)"
  by (induction tqs) (auto simp: Let_def)

lemma collectActivities_length: "length (collectActivities st tqs) \<le> length tqs"
  by (simp add: collectActivities_map_filter)

lemma recentActivities_sorted_candidates:
  "recentActivities st tqs = sort_key (\<lambda>a. - act_date a) (collectActivities st (take 5 tqs))"
proof -
  have "length (collectActivities st (take 5 tqs)) \<le> 5"
    using collectActivities_length[of st "take 5 tqs"] by simp
  then show ?thesis by (simp add: recentActivities_def)
qed

lemma recentActivities_shape:
  "length (recentActivities st tqs) \<le> 5
   \<and> sorted_wrt (\<lambda>a b. act_date b \<le> act_date a) (recentActivities st tqs)
   \<and> mset (recentActivities st tqs)
       = mset (map (\<lambda>tq. latestActivity st tq (getResponsesByTenantQuestion st (tq_id tq)))
                (filter (\<lambda>tq. getResponsesByTenantQuestion st (tq_id tq) \<noteq> []) (take 5 tqs)))"
proof (intro conjI)
  show "length (recentActivities st tqs) \<le> 5"
    by (simp add: recentActivities_def)
  have "sorted (map (\<lambda>a. - act_date a) (recentActivities st tqs))"
    by (simp add: recentActivities_sorted_candidates)
  then show "sorted_wrt (\<lambda>a b. act_date b \<le> act_date a) (recentActivities st tqs)"
    by (simp add: sorted_map)
  show "mset (recentActivities st tqs)
       = mset (map (\<lambda>tq. latestActivity st tq (getResponsesByTenantQuestion st (tq_id tq)))
                (filter (\<lambda>tq. getResponsesByTenantQuestion st (tq_id tq) \<noteq> []) (take 5 tqs)))"
    by (simp add: recentActivities_sorted_candidates collectActivities_map_filter)
qed

section \<open>Listing users\<close>

lemma userWithoutPassword_no_password: "map_of (userWithoutPassword obj) ''password'' = None"
  by (induction obj) (auto simp: userWithoutPassword_def)

lemma userWithoutPassword_independent:
  "userWithoutPassword (userObject (u\<lparr> user_password := p \<rparr>)) = userWithoutPassword (userObject u)"
  by (simp add: userWithoutPassword_def userObject_def)

lemma find_user_map:
  "find (\<lambda>u. user_id u = i) (map (\<lambda>u. u\<lparr> user_password := f u \<rparr>) us)
     = map_option (\<lambda>u. u\<lparr> user_password := f u \<rparr>) (find (\<lambda>u. user_id u = i) us)"
  by (induction us) auto

lemma usersBelow_map:
  "usersBelow (st\<lparr> users := map (\<lambda>u. u\<lparr> user_password := f u \<rparr>) (users st) \<rparr>) i n
     = map (\<lambda>u. u\<lparr> user_password := f u \<rparr>) (usersBelow st i n)"
proof (induction st i n rule: usersBelow.induct)
  case (1 st i bound)
  show ?case
  proof (cases "i < bound")
    case False
    then show ?thesis by (simp add: usersBelow.simps)
  next
    case True
    show ?thesis
    proof (cases "getUser st i")
      case None
      with True 1(1)[OF True None] show ?thesis
        by (subst usersBelow.simps, subst (2) usersBelow.simps)
           (simp add: getUser_def find_user_map)
    next
      case (Some u)
      with True 1(2)[OF True Some] show ?thesis
        by (subst usersBelow.simps, subst (2) usersBelow.simps)
           (simp add: getUser_def find_user_map)
    qed
  qed
qed

lemma getUsersByTenant_map:
  "getUsersByTenant (st\<lparr> users := map (\<lambda>u. u\<lparr> user_password := f u \<rparr>) (users st) \<rparr>) t
     = map (\<lambda>u. u\<lparr> user_password := f u \<rparr>) (getUsersByTenant st t)"
  by (simp add: getUsersByTenant_def filter_map comp_def)

text \<open>
  C10. The admin user listing answers 200 with a list of user objects, for one tenant or
  across all tenants, and no object of the list has a password field. Moreover the
  answer does not depend on the stored passwords: replacing them in the store leaves it
  unchanged.
\<close>

theorem adminUsers_without_password:
  "(\<exists>objs. adminUsers st n q = Json 200 objs
        \<and> (\<forall>obj \<in> set objs. map_of obj ''password'' = None))
   \<and> adminUsers (st\<lparr> users := map (\<lambda>u. u\<lparr> user_password := f u \<rparr>) (users st) \<rparr>) n q
       = adminUsers st n q"
  by (auto simp: adminUsers_def Let_def userWithoutPassword_no_password usersBelow_map
      getUsersByTenant_map userWithoutPassword_independent comp_def split: option.splits)

theorem adminUsers_without_password_witness:
  "adminUsers exampleStore None (Some 7)
     = Json 200 [[(''id'', JNumber 2), (''username'', JString ''dave''),
                  (''email'', JString ''dave@seven.example''), (''fullName'', JString ''Dave Seven''),
                  (''role'', JString ''Customer''), (''tenantId'', JNumber 7),
                  (''createdAt'', JNumber 11)]]
   \<and> map (map fst) (case adminUsers exampleStore (Some 4) None of Json c objs \<Rightarrow> objs | _ \<Rightarrow> [])
     = [[''id'', ''username'', ''email'', ''fullName'', ''role'', ''tenantId'', ''createdAt''],
        [''id'', ''username'', ''email'', ''fullName'', ''role'', ''tenantId'', ''createdAt''],
        [''id'', ''username'', ''email'', ''fullName'', ''role'', ''tenantId'', ''createdAt'']]"
proof -
  have loop: "usersBelow exampleStore (Suc 0) 4 = [customer5, customer7, consultant]"
    by (simp add: usersBelow.simps getUser_def example_defs)
  have all: "adminUsers exampleStore (Some 4) None
               = Json 200 (map (\<lambda>u. userWithoutPassword (userObject u))
                            [customer5, customer7, consultant])"
    by (simp add: adminUsers_def loop)
  have one: "adminUsers exampleStore None (Some 7)
               = Json 200 (map (\<lambda>u. userWithoutPassword (userObject u)) [customer7])"
    by (simp add: adminUsers_def getUsersByTenant_def example_defs)
  show ?thesis
    using adminUsers_without_password[where st = exampleStore and n = None and q = "Some 7"]
      adminUsers_without_password[where st = exampleStore and n = "Some 4" and q = None]
    unfolding all one
    by (simp add: userWithoutPassword_def userObject_def customer5_def customer7_def
        consultant_def)
qed


end
